theory Spec2Isabelle
  imports Main
begin

section \<open>Process environment and JavaScript truthiness\<close>

text \<open>
  \<^verbatim>\<open>process.env\<close> is a dictionary from variable names to strings; an unset
  variable reads as \<^verbatim>\<open>undefined\<close>, which is \<open>None\<close> here.
\<close>

type_synonym env = "string \<rightharpoonup> string"

text \<open>
  \<^verbatim>\<open>!x\<close>, \<^verbatim>\<open>x || y\<close> and \<^verbatim>\<open>if (x)\<close> on a value that is a string or
  \<^verbatim>\<open>undefined\<close>: \<^verbatim>\<open>undefined\<close> and the empty string are falsy, every other
  string is truthy.
\<close>

fun truthy :: "string option \<Rightarrow> bool" where
  "truthy None = False"
| "truthy (Some s) = (s \<noteq> [])"

text \<open>\<^verbatim>\<open>a || b\<close> where \<open>b\<close> is a string constant.\<close>

definition or_else :: "string option \<Rightarrow> string \<Rightarrow> string option" where
  "or_else a b = (if truthy a then a else Some b)"

section \<open>Session configuration\<close>

text \<open>
  The options object handed to \<^verbatim>\<open>session(...)\<close>. The store is built by
  \<^verbatim>\<open>MongoStore.create\<close> from either the shared \<^verbatim>\<open>clientPromise\<close> (classic
  server) or the raw connection string \<^verbatim>\<open>process.env.MONGO_URI\<close> (serverless).
  \<open>ttl\<close> is in seconds, \<open>maxAge\<close> in milliseconds.
\<close>

datatype store_source = ClientPromise | MongoUrl "string option"

record store_options =
  source :: store_source
  collectionName :: string
  ttl :: nat
  autoRemove :: "string option"

record cookie_options =
  httpOnly :: bool
  secure :: bool
  sameSite :: string
  maxAge :: nat

record session_options =
  name :: string
  secret :: "string option"
  resave :: bool
  saveUninitialized :: bool
  store :: store_options
  cookie :: cookie_options

text \<open>\<^verbatim>\<open>process.env.NODE_ENV === "production"\<close>\<close>

definition is_production :: "env \<Rightarrow> bool" where
  "is_production e = (e ''NODE_ENV'' = Some ''production'')"

text \<open>Classic server, \<^verbatim>\<open>app.use(session({...}))\<close> at module load.\<close>

definition classic_session_options :: "env \<Rightarrow> session_options" where
  "classic_session_options e =
     \<lparr> name = ''startup.sid'',
       secret = or_else (e ''SESSION_SECRET'') ''secret_fallback_key'',
       resave = False,
       saveUninitialized = False,
       store = \<lparr> source = ClientPromise,
                 collectionName = ''sessions'',
                 ttl = 14 * 24 * 60 * 60,
                 autoRemove = Some ''native'' \<rparr>,
       cookie = \<lparr> httpOnly = True,
                  secure = is_production e,
                  sameSite = (if is_production e then ''none'' else ''lax''),
                  maxAge = 1000 * 60 * 60 * 24 \<rparr> \<rparr>"

text \<open>Serverless function, the options built inside the per-request middleware.\<close>

definition serverless_session_options :: "env \<Rightarrow> session_options" where
  "serverless_session_options e =
     \<lparr> name = ''startup.sid'',
       secret = e ''SESSION_SECRET'',
       resave = False,
       saveUninitialized = False,
       store = \<lparr> source = MongoUrl (e ''MONGO_URI''),
                 collectionName = ''sessions'',
                 ttl = 14 * 24 * 60 * 60,
                 autoRemove = None \<rparr>,
       cookie = \<lparr> httpOnly = True,
                  secure = True,
                  sameSite = ''none'',
                  maxAge = 1000 * 60 * 60 * 24 \<rparr> \<rparr>"

definition seconds_per_day :: nat where
  "seconds_per_day = 24 * 60 * 60"

definition millis_per_day :: nat where
  "millis_per_day = 1000 * seconds_per_day"

section \<open>Errors and responses\<close>

text \<open>
  A thrown JavaScript error as the handlers read it: \<^verbatim>\<open>err.status\<close> and
  \<^verbatim>\<open>err.message\<close>, each of which may be undefined. \<^verbatim>\<open>new Error(msg)\<close> has a
  message and no status.
\<close>

record js_error =
  err_status :: "int option"
  err_message :: "string option"

definition new_Error :: "string \<Rightarrow> js_error" where
  "new_Error msg = \<lparr> err_status = None, err_message = Some msg \<rparr>"

text \<open>
  The response object \<^verbatim>\<open>res\<close>: \<^verbatim>\<open>res.status(c)\<close> stores the status code,
  \<^verbatim>\<open>res.json(b)\<close> sends body \<open>b\<close> under the stored code. Every body sent is kept,
  in order, so that the number of responses can be counted.
\<close>

record error_body =
  success :: bool
  message :: string

record res =
  statusCode :: int
  sent :: "(int \<times> error_body) list"

definition fresh_res :: res where
  "fresh_res = \<lparr> statusCode = 200, sent = [] \<rparr>"

definition res_status :: "int \<Rightarrow> res \<Rightarrow> res" where
  "res_status c r = r\<lparr> statusCode := c \<rparr>"

definition res_json :: "error_body \<Rightarrow> res \<Rightarrow> res" where
  "res_json b r = r\<lparr> sent := sent r @ [(statusCode r, b)] \<rparr>"

text \<open>\<^verbatim>\<open>err.status || 500\<close>: undefined and \<open>0\<close> are falsy.\<close>

definition status_or_500 :: "js_error \<Rightarrow> int" where
  "status_or_500 err =
     (case err_status err of None \<Rightarrow> 500 | Some c \<Rightarrow> if c = 0 then 500 else c)"

text \<open>\<^verbatim>\<open>err.message || "Internal Server Error"\<close>\<close>

definition message_or_default :: "js_error \<Rightarrow> string" where
  "message_or_default err =
     (case err_message err of
        None \<Rightarrow> ''Internal Server Error''
      | Some m \<Rightarrow> if m = [] then ''Internal Server Error'' else m)"

text \<open>
  The terminal error handler of the classic server:
  \<^verbatim>\<open>res.status(err.status || 500).json({ success: false, message: ... })\<close>.
\<close>

definition classic_error_handler :: "js_error \<Rightarrow> res \<Rightarrow> res" where
  "classic_error_handler err r =
     res_json \<lparr> success = False, message = message_or_default err \<rparr>
       (res_status (status_or_500 err) r)"

text \<open>
  The terminal error handler of the serverless function:
  \<^verbatim>\<open>res.status(500).json({ success: false, message: ... })\<close>.
\<close>

definition serverless_error_handler :: "js_error \<Rightarrow> res \<Rightarrow> res" where
  "serverless_error_handler err r =
     res_json \<lparr> success = False, message = message_or_default err \<rparr>
       (res_status 500 r)"

section \<open>CORS policy and the front of the request pipeline\<close>

text \<open>
  \<^verbatim>\<open>allowedOrigins\<close>: the configured frontend URL (undefined when the variable is
  unset) and the two local development origins. Both variants build the same list.
\<close>

definition allowedOrigins :: "env \<Rightarrow> string option list" where
  "allowedOrigins e =
     [e ''GOOGLE_CLIENT_URL'', Some ''http://localhost:5173'', Some ''http://localhost:3000'']"

text \<open>
  The \<open>origin\<close> callback given to \<^verbatim>\<open>cors\<close>, the same text in both variants. Its
  argument is \<^verbatim>\<open>req.headers.origin\<close>: undefined without an Origin header, the
  header's value otherwise. \<open>Inr True\<close> is \<^verbatim>\<open>callback(null, true)\<close>, \<open>Inl err\<close> is
  \<^verbatim>\<open>callback(err)\<close>.
\<close>

definition origin_check :: "env \<Rightarrow> string option \<Rightarrow> js_error + bool" where
  "origin_check e origin =
     (if \<not> truthy origin then Inr True
      else if origin \<in> set (allowedOrigins e) then Inr True
      else Inl (new_Error ''Not allowed by CORS''))"

text \<open>
  What the pipeline reads of a request before the session layer: the method, the Origin
  header, and whether the body parsers (\<^verbatim>\<open>express.json\<close>, \<^verbatim>\<open>express.urlencoded\<close>)
  raise on its body.
\<close>

record request =
  req_method :: string
  origin :: "string option"
  parse_error :: "js_error option"

text \<open>
  The middleware registered before the session layer, in registration order: the body
  parsers, then \<^verbatim>\<open>cors\<close>. An error passed to \<^verbatim>\<open>next\<close> skips every later
  middleware up to the terminal error handler; \<^verbatim>\<open>cors\<close> answers a preflight
  (\<^verbatim>\<open>OPTIONS\<close>) request itself; every other request goes on to the session layer.
\<close>

datatype dispatch = Fail js_error | Preflight | Continue

definition front_middleware :: "env \<Rightarrow> request \<Rightarrow> dispatch" where
  "front_middleware e rq =
     (case parse_error rq of
        Some err \<Rightarrow> Fail err
      | None \<Rightarrow>
          (case origin_check e (origin rq) of
             Inl err \<Rightarrow> Fail err
           | Inr _ \<Rightarrow> if req_method rq = ''OPTIONS'' then Preflight else Continue))"

text \<open>
  What has happened to a request once the pipeline modelled here is done with it: a
  response written by the error handler, the preflight answer of \<^verbatim>\<open>cors\<close>, or the
  request handed to the session, passport and route layers.
\<close>

datatype outcome = Responded res | PreflightAnswered | PassedOn

definition classic_gateway :: "env \<Rightarrow> request \<Rightarrow> outcome" where
  "classic_gateway e rq =
     (case front_middleware e rq of
        Fail err \<Rightarrow> Responded (classic_error_handler err fresh_res)
      | Preflight \<Rightarrow> PreflightAnswered
      | Continue \<Rightarrow> PassedOn)"

section \<open>The database as the index maintenance sees it\<close>

text \<open>
  A User document is an ordered list of fields; a field that is not listed is absent,
  which is different from a field holding \<^verbatim>\<open>null\<close>.
\<close>

datatype bson = BNull | BString string | BInt int | BBool bool

type_synonym document = "(string \<times> bson) list"

record database =
  users :: "document list"
  user_indexes :: "string list"

text \<open>
  What the source does not determine about a run: which of the four calls on the User
  model fail for reasons of their own (a missing schema, the network, a duplicate key
  while an index is built), each with the error it throws, and the names of the indexes
  the User schema declares (the schema file is not part of the sources at hand).
\<close>

record backend =
  model_fault :: "js_error option"
  updateMany_fault :: "js_error option"
  dropIndex_fault :: "js_error option"
  syncIndexes_fault :: "js_error option"
  schema_indexes :: "string list"

datatype db_call = UpdateMany | DropIndex | SyncIndexes

text \<open>
  The state the code acts on: the database, the lines written to the console, and the
  calls issued to the User collection, in order.
\<close>

record world =
  db :: database
  console :: "string list"
  issued :: "db_call list"

text \<open>
  An asynchronous computation that is awaited at once: it changes the world and either
  returns a value or throws. Effects made before a throw stay.
\<close>

type_synonym 'a io = "world \<Rightarrow> (js_error + 'a) \<times> world"

definition io_return :: "'a \<Rightarrow> 'a io" where
  "io_return x w = (Inr x, w)"

definition io_throw :: "js_error \<Rightarrow> 'a io" where
  "io_throw err w = (Inl err, w)"

text \<open>\<^verbatim>\<open>await m; n\<close>\<close>

definition io_then :: "unit io \<Rightarrow> 'a io \<Rightarrow> 'a io" where
  "io_then m n w = (case m w of (Inl err, w') \<Rightarrow> (Inl err, w') | (Inr _, w') \<Rightarrow> n w')"

text \<open>\<^verbatim>\<open>try { m } catch (err) { h }\<close>, and \<^verbatim>\<open>m.catch(h)\<close> when awaited.\<close>

definition io_catch :: "'a io \<Rightarrow> (js_error \<Rightarrow> 'a io) \<Rightarrow> 'a io" where
  "io_catch m h w = (case m w of (Inl err, w') \<Rightarrow> h err w' | (Inr x, w') \<Rightarrow> (Inr x, w'))"

definition console_log :: "string \<Rightarrow> unit io" where
  "console_log line w = (Inr (), w\<lparr> console := console w @ [line] \<rparr>)"

text \<open>How \<^verbatim>\<open>err.message\<close> prints as the second argument of a console call.\<close>

definition shown_message :: "js_error \<Rightarrow> string" where
  "shown_message err = (case err_message err of None \<Rightarrow> ''undefined'' | Some m \<Rightarrow> m)"

text \<open>\<^verbatim>\<open>m.model('User')\<close> throws when no such model is registered.\<close>

definition model_User :: "backend \<Rightarrow> unit io" where
  "model_User b = (case model_fault b of Some err \<Rightarrow> io_throw err | None \<Rightarrow> io_return ())"

text \<open>
  MongoDB's equality match on scalar fields: a condition \<^verbatim>\<open>{ k: null }\<close> matches a
  document whose field \<open>k\<close> is \<^verbatim>\<open>null\<close> or absent; a condition on any other value
  matches a document whose field \<open>k\<close> holds that value.
\<close>

definition matches :: "document \<Rightarrow> document \<Rightarrow> bool" where
  "matches query d =
     list_all (\<lambda>(k, v). case v of
                 BNull \<Rightarrow> map_of d k = None \<or> map_of d k = Some BNull
               | _ \<Rightarrow> map_of d k = Some v) query"

text \<open>\<^verbatim>\<open>$unset\<close>: the named fields are removed; a field that is absent stays absent.\<close>

definition unset_fields :: "string list \<Rightarrow> document \<Rightarrow> document" where
  "unset_fields ks d = filter (\<lambda>(k, v). k \<notin> set ks) d"

text \<open>\<^verbatim>\<open>User.updateMany(query, { $unset: {...} })\<close> with the fields to unset.\<close>

definition updateMany :: "backend \<Rightarrow> document \<Rightarrow> string list \<Rightarrow> unit io" where
  "updateMany b query ks w =
     (let w1 = w\<lparr> issued := issued w @ [UpdateMany] \<rparr> in
      case updateMany_fault b of
        Some err \<Rightarrow> (Inl err, w1)
      | None \<Rightarrow>
          (Inr (),
           w1\<lparr> db := (db w1)\<lparr> users :=
                  map (\<lambda>d. if matches query d then unset_fields ks d else d)
                    (users (db w1)) \<rparr> \<rparr>))"

text \<open>
  \<^verbatim>\<open>User.collection.dropIndex(name)\<close>: the server rejects the call when the
  collection has no index of that name.
\<close>

definition dropIndex :: "backend \<Rightarrow> string \<Rightarrow> unit io" where
  "dropIndex b idx w =
     (let w1 = w\<lparr> issued := issued w @ [DropIndex] \<rparr> in
      case dropIndex_fault b of
        Some err \<Rightarrow> (Inl err, w1)
      | None \<Rightarrow>
          if idx \<in> set (user_indexes (db w1))
          then (Inr (), w1\<lparr> db := (db w1)\<lparr> user_indexes :=
                               removeAll idx (user_indexes (db w1)) \<rparr> \<rparr>)
          else (Inl (new_Error (''index not found with name ['' @ idx @ '']'')), w1))"

text \<open>
  \<^verbatim>\<open>User.syncIndexes()\<close>: the collection's indexes become those of the schema,
  next to the default index on \<^verbatim>\<open>_id\<close>.
\<close>

definition syncIndexes :: "backend \<Rightarrow> unit io" where
  "syncIndexes b w =
     (let w1 = w\<lparr> issued := issued w @ [SyncIndexes] \<rparr> in
      case syncIndexes_fault b of
        Some err \<Rightarrow> (Inl err, w1)
      | None \<Rightarrow> (Inr (), w1\<lparr> db := (db w1)\<lparr> user_indexes := ''_id_'' # schema_indexes b \<rparr> \<rparr>))"

section \<open>Index maintenance\<close>

text \<open>
  The first step of both variants:
  \<^verbatim>\<open>User.updateMany({ supabaseUserId: null }, { $unset: { supabaseUserId: "" } })\<close>.
\<close>

definition cleanup_null_ids :: "backend \<Rightarrow> unit io" where
  "cleanup_null_ids b = updateMany b [(''supabaseUserId'', BNull)] [''supabaseUserId'']"

text \<open>
  The \<^verbatim>\<open>try { ... } catch (err) { ... }\<close> block of the classic server. (The console
  lines are the source's without their pictographs.)
\<close>

definition classic_index_maintenance :: "backend \<Rightarrow> unit io" where
  "classic_index_maintenance b =
     io_catch
       (io_then (model_User b)
       (io_then (cleanup_null_ids b)
       (io_then (console_log ''Cleaned up literal null values in users collection'')
       (io_then (io_catch (dropIndex b ''supabaseUserId_1'')
                   (\<lambda>err. console_log ''Old index not found or already updated.''))
       (io_then (syncIndexes b)
                (console_log ''Database indexes synchronized (Partial Index active)''))))))
       (\<lambda>err. console_log (''Index maintenance skipped: '' @ shown_message err))"

text \<open>The same block in the serverless function.\<close>

definition serverless_index_maintenance :: "backend \<Rightarrow> unit io" where
  "serverless_index_maintenance b =
     io_catch
       (io_then (model_User b)
       (io_then (cleanup_null_ids b)
       (io_then (io_catch (dropIndex b ''supabaseUserId_1'')
                   (\<lambda>err. console_log ''Index already clean''))
       (io_then (syncIndexes b)
                (console_log ''Indexes synced'')))))
       (\<lambda>err. console_log (''Index sync skipped: '' @ shown_message err))"

text \<open>
  The connection handles: \<^verbatim>\<open>mongoose.connect\<close> resolves to a mongoose instance
  \<open>m\<close>; the classic server hands on \<^verbatim>\<open>m.connection.getClient()\<close>.
\<close>

datatype mongoose = Mongoose nat

datatype mongo_client = MongoClient nat

fun getClient :: "mongoose \<Rightarrow> mongo_client" where
  "getClient (Mongoose n) = MongoClient n"

text \<open>The \<^verbatim>\<open>.then(async (m) => { ... })\<close> handlers.\<close>

definition classic_then_handler :: "backend \<Rightarrow> mongoose \<Rightarrow> mongo_client io" where
  "classic_then_handler b m =
     io_then (console_log ''MongoDB connected successfully'')
    (io_then (classic_index_maintenance b)
             (io_return (getClient m)))"

definition serverless_then_handler :: "backend \<Rightarrow> mongoose \<Rightarrow> mongoose io" where
  "serverless_then_handler b m =
     io_then (console_log ''MongoDB connected'')
    (io_then (serverless_index_maintenance b)
             (io_return m))"

section \<open>The classic server as a process\<close>

text \<open>
  The module's top level runs once: \<^verbatim>\<open>mongoose.connect\<close> is called and its promise,
  chained with \<^verbatim>\<open>.then\<close> and \<^verbatim>\<open>.catch\<close>, is kept in the constant
  \<^verbatim>\<open>clientPromise\<close>; the middleware is registered; \<^verbatim>\<open>app.listen\<close> is called.
  None of this waits for the connection. \<open>clientPromise\<close> is \<open>None\<close> while the
  promise is pending and holds the client once it is fulfilled.
\<close>

record classic_process =
  clientPromise :: "mongo_client option"
  classic_connect_calls :: nat
  listening :: bool
  exit_code :: "int option"
  classic_world :: world
  handled :: "outcome list"

definition classic_startup :: "world \<Rightarrow> classic_process" where
  "classic_startup w =
     \<lparr> clientPromise = None,
       classic_connect_calls = 1,
       listening = True,
       exit_code = None,
       classic_world = w,
       handled = [] \<rparr>"

text \<open>
  \<^verbatim>\<open>.catch((err) => { console.error(...); process.exit(1); })\<close>
\<close>

definition classic_catch_handler :: "js_error \<Rightarrow> classic_process \<Rightarrow> classic_process" where
  "classic_catch_handler err p =
     p\<lparr> classic_world :=
          snd (console_log (''MongoDB connection error: '' @ shown_message err)
                 (classic_world p)),
        exit_code := Some 1 \<rparr>"

text \<open>
  The promise of \<^verbatim>\<open>mongoose.connect\<close> settles: a fulfilled one runs the
  \<^verbatim>\<open>.then\<close> handler, a rejected one, or a handler that throws, runs the
  \<^verbatim>\<open>.catch\<close> handler.
\<close>

definition classic_on_settle ::
  "backend \<Rightarrow> js_error + mongoose \<Rightarrow> classic_process \<Rightarrow> classic_process" where
  "classic_on_settle b r p =
     (case r of
        Inl err \<Rightarrow> classic_catch_handler err p
      | Inr m \<Rightarrow>
          (case classic_then_handler b m (classic_world p) of
             (Inl err, w') \<Rightarrow> classic_catch_handler err (p\<lparr> classic_world := w' \<rparr>)
           | (Inr c, w') \<Rightarrow> p\<lparr> clientPromise := Some c, classic_world := w' \<rparr>))"

text \<open>
  What the event loop delivers to the process: the outcome of the connection attempt, or
  an incoming request. A process that has exited takes no further event; a promise
  settles once.
\<close>

datatype classic_event = ConnectSettles "js_error + mongoose" | Incoming request

definition classic_step ::
  "backend \<Rightarrow> env \<Rightarrow> classic_event \<Rightarrow> classic_process \<Rightarrow> classic_process" where
  "classic_step b e ev p =
     (if exit_code p \<noteq> None then p
      else case ev of
        ConnectSettles r \<Rightarrow> if clientPromise p = None then classic_on_settle b r p else p
      | Incoming rq \<Rightarrow>
          if listening p then p\<lparr> handled := handled p @ [classic_gateway e rq] \<rparr> else p)"

primrec classic_run ::
  "backend \<Rightarrow> env \<Rightarrow> classic_event list \<Rightarrow> classic_process \<Rightarrow> classic_process" where
  "classic_run b e [] p = p"
| "classic_run b e (ev # evs) p = classic_run b e evs (classic_step b e ev p)"

fun is_incoming :: "classic_event \<Rightarrow> bool" where
  "is_incoming (Incoming rq) = True"
| "is_incoming (ConnectSettles r) = False"

fun requests_of :: "classic_event list \<Rightarrow> request list" where
  "requests_of [] = []"
| "requests_of (Incoming rq # evs) = rq # requests_of evs"
| "requests_of (ConnectSettles r # evs) = requests_of evs"

section \<open>The serverless function as a process\<close>

text \<open>
  \<^verbatim>\<open>cached = global.mongoose = { conn: null, promise: null }\<close>. A promise is named
  by its position in \<open>attempts\<close>, the list of the promises that \<^verbatim>\<open>connectDB\<close> has
  created, each pending (\<open>None\<close>) or settled with its outcome.
\<close>

record cache =
  conn :: "mongoose option"
  promise :: "nat option"

text \<open>
  Who called \<^verbatim>\<open>connectDB\<close>: the session middleware on behalf of a request, or other
  code (the health check route calls it too).
\<close>

datatype caller_kind = Middleware | Direct

record serverless_process =
  cached :: cache
  attempts :: "(js_error + mongoose) option list"
  connect_calls :: nat
  awaiting :: "(nat \<times> nat \<times> caller_kind) list"
  returned :: "(nat \<times> caller_kind \<times> (js_error + mongoose)) list"
  stores_created :: "store_options list"
  sessions_built :: "session_options list"
  answered :: "(nat \<times> outcome) list"
  serverless_world :: world

definition serverless_startup :: "world \<Rightarrow> serverless_process" where
  "serverless_startup w =
     \<lparr> cached = \<lparr> conn = None, promise = None \<rparr>,
       attempts = [],
       connect_calls = 0,
       awaiting = [],
       returned = [],
       stores_created = [],
       sessions_built = [],
       answered = [],
       serverless_world = w \<rparr>"

text \<open>
  \<^verbatim>\<open>connectDB\<close> returns to caller \<open>c\<close>. For the session middleware the rest of its
  body follows: with a connection, \<^verbatim>\<open>MongoStore.create({ mongoUrl: ... })\<close> and
  \<^verbatim>\<open>session({...})\<close> are called and the request is handed on; with a rejection the
  \<^verbatim>\<open>await\<close> throws and the body is left.
\<close>

definition connectDB_returns ::
  "env \<Rightarrow> nat \<Rightarrow> caller_kind \<Rightarrow> js_error + mongoose \<Rightarrow> serverless_process
     \<Rightarrow> serverless_process" where
  "connectDB_returns e c k r s =
     (let s1 = s\<lparr> returned := returned s @ [(c, k, r)] \<rparr> in
      case (k, r) of
        (Middleware, Inr m) \<Rightarrow>
          s1\<lparr> stores_created := stores_created s1 @ [store (serverless_session_options e)],
              sessions_built := sessions_built s1 @ [serverless_session_options e],
              answered := answered s1 @ [(c, PassedOn)] \<rparr>
      | _ \<Rightarrow> s1)"

text \<open>
  \<^verbatim>\<open>connectDB\<close> up to its first suspension, which runs without interruption:
  \<^verbatim>\<open>if (cached.conn) return cached.conn;\<close>, then
  \<^verbatim>\<open>if (!cached.promise) cached.promise = mongoose.connect(...).then(...)\<close>, then
  the caller waits at \<^verbatim>\<open>await cached.promise\<close>.
\<close>

definition connectDB_begin ::
  "env \<Rightarrow> nat \<Rightarrow> caller_kind \<Rightarrow> serverless_process \<Rightarrow> serverless_process" where
  "connectDB_begin e c k s =
     (case conn (cached s) of
        Some m \<Rightarrow> connectDB_returns e c k (Inr m) s
      | None \<Rightarrow>
          (case promise (cached s) of
             Some p \<Rightarrow> s\<lparr> awaiting := awaiting s @ [(c, p, k)] \<rparr>
           | None \<Rightarrow>
               (let p = length (attempts s) in
                s\<lparr> attempts := attempts s @ [None],
                   connect_calls := connect_calls s + 1,
                   cached := (cached s)\<lparr> promise := Some p \<rparr>,
                   awaiting := awaiting s @ [(c, p, k)] \<rparr>)))"

text \<open>
  The rest of \<^verbatim>\<open>connectDB\<close>, once the awaited promise has settled:
  \<^verbatim>\<open>cached.conn = await cached.promise; return cached.conn;\<close>. A rejected promise
  makes the \<^verbatim>\<open>await\<close> throw, and nothing is assigned.
\<close>

definition connectDB_resume :: "env \<Rightarrow> nat \<Rightarrow> serverless_process \<Rightarrow> serverless_process" where
  "connectDB_resume e c s =
     (case find (\<lambda>(c', p, k). c' = c) (awaiting s) of
        None \<Rightarrow> s
      | Some (c', p, k) \<Rightarrow>
          if p < length (attempts s) then
            (case attempts s ! p of
               None \<Rightarrow> s
             | Some (Inl err) \<Rightarrow>
                 connectDB_returns e c k (Inl err)
                   (s\<lparr> awaiting := remove1 (c', p, k) (awaiting s) \<rparr>)
             | Some (Inr m) \<Rightarrow>
                 connectDB_returns e c k (Inr m)
                   (s\<lparr> awaiting := remove1 (c', p, k) (awaiting s),
                       cached := (cached s)\<lparr> conn := Some m \<rparr> \<rparr>))
          else s)"

text \<open>
  The promise of attempt \<open>p\<close> settles, once: \<^verbatim>\<open>mongoose.connect\<close> rejects, or it
  resolves and the \<^verbatim>\<open>.then\<close> handler runs. The serverless chain has no
  \<^verbatim>\<open>.catch\<close>.
\<close>

definition connect_settles ::
  "backend \<Rightarrow> nat \<Rightarrow> js_error + mongoose \<Rightarrow> serverless_process \<Rightarrow> serverless_process" where
  "connect_settles b p r s =
     (if p < length (attempts s) \<and> attempts s ! p = None then
        (case r of
           Inl err \<Rightarrow> s\<lparr> attempts := (attempts s)[p := Some (Inl err)] \<rparr>
         | Inr m \<Rightarrow>
             (case serverless_then_handler b m (serverless_world s) of
                (v, w') \<Rightarrow> s\<lparr> attempts := (attempts s)[p := Some v], serverless_world := w' \<rparr>))
      else s)"

text \<open>
  A request arrives: the body parsers and \<^verbatim>\<open>cors\<close> run, then the session
  middleware starts with \<^verbatim>\<open>await connectDB()\<close>.
\<close>

definition request_arrives ::
  "env \<Rightarrow> nat \<Rightarrow> request \<Rightarrow> serverless_process \<Rightarrow> serverless_process" where
  "request_arrives e c rq s =
     (case front_middleware e rq of
        Fail err \<Rightarrow>
          s\<lparr> answered := answered s @ [(c, Responded (serverless_error_handler err fresh_res))] \<rparr>
      | Preflight \<Rightarrow> s\<lparr> answered := answered s @ [(c, PreflightAnswered)] \<rparr>
      | Continue \<Rightarrow> connectDB_begin e c Middleware s)"

text \<open>
  The pieces of code the event loop runs, each without interruption: request \<open>c\<close>
  arrives; other code calls \<^verbatim>\<open>connectDB\<close> as caller \<open>c\<close>; attempt \<open>p\<close> settles;
  caller \<open>c\<close> resumes after its \<^verbatim>\<open>await\<close>.
\<close>

datatype serverless_event =
  Arrives nat request
| Calls nat
| Settles nat "js_error + mongoose"
| Resumes nat

fun serverless_step ::
  "backend \<Rightarrow> env \<Rightarrow> serverless_event \<Rightarrow> serverless_process \<Rightarrow> serverless_process" where
  "serverless_step b e (Arrives c rq) s = request_arrives e c rq s"
| "serverless_step b e (Calls c) s = connectDB_begin e c Direct s"
| "serverless_step b e (Settles p r) s = connect_settles b p r s"
| "serverless_step b e (Resumes c) s = connectDB_resume e c s"

primrec serverless_run ::
  "backend \<Rightarrow> env \<Rightarrow> serverless_event list \<Rightarrow> serverless_process \<Rightarrow> serverless_process" where
  "serverless_run b e [] s = s"
| "serverless_run b e (ev # evs) s = serverless_run b e evs (serverless_step b e ev s)"

text \<open>The outcomes of the calls of \<^verbatim>\<open>connectDB\<close> that have returned.\<close>

definition results :: "serverless_process \<Rightarrow> (js_error + mongoose) list" where
  "results s = map (\<lambda>(c, k, r). r) (returned s)"

text \<open>The returns of \<^verbatim>\<open>connectDB\<close> to the session middleware that brought a connection.\<close>

definition middleware_connected ::
  "serverless_process \<Rightarrow> (nat \<times> caller_kind \<times> (js_error + mongoose)) list" where
  "middleware_connected s =
     filter (\<lambda>(c, k, r). k = Middleware \<and> isl r = False) (returned s)"

section \<open>Invariants of the serverless process\<close>

text \<open>
  The connection cache: \<^verbatim>\<open>connectDB\<close> has created at most one promise and called
  \<^verbatim>\<open>mongoose.connect\<close> once for it, \<^verbatim>\<open>cached.promise\<close> is that promise,
  \<^verbatim>\<open>cached.conn\<close> is set only to what the promise was fulfilled with, and every
  call that has returned has returned the promise's outcome.
\<close>

definition cm_inv :: "serverless_process \<Rightarrow> bool" where
  "cm_inv s = (connect_calls s = length (attempts s) \<and> length (attempts s) \<le> 1
     \<and> promise (cached s) = (if attempts s = [] then None else Some 0)
     \<and> (\<forall>m. conn (cached s) = Some m \<longrightarrow> attempts s = [Some (Inr m)])
     \<and> (\<forall>x \<in> set (returned s). attempts s = [Some (snd (snd x))]))"

text \<open>Every suspended caller waits for a promise that exists.\<close>

definition awaiting_inv :: "serverless_process \<Rightarrow> bool" where
  "awaiting_inv s = (\<forall>x \<in> set (awaiting s). fst (snd x) < length (attempts s))"

text \<open>
  One store and one session middleware have been built for each return of
  \<^verbatim>\<open>connectDB\<close> to the session middleware that brought a connection, each from the
  same options.
\<close>

definition store_inv :: "env \<Rightarrow> serverless_process \<Rightarrow> bool" where
  "store_inv e s =
     (stores_created s = map (\<lambda>x. store (serverless_session_options e)) (middleware_connected s)
      \<and> sessions_built s = map (\<lambda>x. serverless_session_options e) (middleware_connected s))"

section \<open>Sample inputs\<close>

text \<open>
  A backend on which no call fails for reasons of its own, and one on which the bulk
  update fails; a collection of three users (identity \<^verbatim>\<open>null\<close>, identity set,
  identity absent) without the legacy index; a request from an origin that is not
  allowed and one without an Origin header; a connection error.
\<close>

definition no_faults :: backend where
  "no_faults = \<lparr> model_fault = None, updateMany_fault = None, dropIndex_fault = None,
                 syncIndexes_fault = None, schema_indexes = [''supabaseUserId_1''] \<rparr>"

definition refused :: js_error where
  "refused = new_Error ''connect ECONNREFUSED''"

definition failing_update :: backend where
  "failing_update = no_faults\<lparr> updateMany_fault := Some refused \<rparr>"

definition sample_world :: world where
  "sample_world =
     \<lparr> db = \<lparr> users = [[(''email'', BString ''a@x.io''), (''supabaseUserId'', BNull)],
                       [(''email'', BString ''b@x.io''), (''supabaseUserId'', BString ''u-1'')],
                       [(''email'', BString ''c@x.io'')]],
              user_indexes = [''_id_'', ''email_1''] \<rparr>,
       console = [],
       issued = [] \<rparr>"

definition evil_request :: request where
  "evil_request = \<lparr> req_method = ''GET'', origin = Some ''http://evil.example'', parse_error = None \<rparr>"

definition plain_request :: request where
  "plain_request = \<lparr> req_method = ''GET'', origin = None, parse_error = None \<rparr>"

section \<open>Properties of the session configuration\<close>

text \<open>
  C5. The cookie policy is fixed per deployment mode. Classic server: the cookie is
  secure exactly when \<^verbatim>\<open>NODE_ENV\<close> is \<^verbatim>\<open>production\<close>, \<open>sameSite\<close> is
  \<^verbatim>\<open>none\<close> in production and \<^verbatim>\<open>lax\<close> otherwise, the store keeps a session for
  14 days and the cookie lives for 1 day. Serverless function: the cookie is secure and
  \<open>sameSite\<close> is \<^verbatim>\<open>none\<close> whatever the environment holds.
\<close>

theorem cookie_policy_per_mode:
  "secure (cookie (classic_session_options e)) = (e ''NODE_ENV'' = Some ''production'')
   \<and> sameSite (cookie (classic_session_options e)) =
       (if e ''NODE_ENV'' = Some ''production'' then ''none'' else ''lax'')
   \<and> ttl (store (classic_session_options e)) = 14 * seconds_per_day
   \<and> maxAge (cookie (classic_session_options e)) = 1 * millis_per_day
   \<and> secure (cookie (serverless_session_options e))
   \<and> sameSite (cookie (serverless_session_options e)) = ''none''"
  by (simp add: classic_session_options_def serverless_session_options_def
      is_production_def seconds_per_day_def millis_per_day_def)

text \<open>
  C10. Classic server: whenever \<^verbatim>\<open>SESSION_SECRET\<close> is unset, the session middleware
  is configured with the constant \<^verbatim>\<open>secret_fallback_key\<close>. Serverless function: no
  fallback, the value of the variable is passed as it is, so an unset variable gives an
  undefined secret.
\<close>

theorem session_secret_fallback:
  "e ''SESSION_SECRET'' = None \<Longrightarrow>
     secret (classic_session_options e) = Some ''secret_fallback_key''
     \<and> secret (serverless_session_options e) = None"
  by (simp add: classic_session_options_def serverless_session_options_def or_else_def)

theorem session_secret_fallback_witness:
  "Map.empty ''SESSION_SECRET'' = (None :: string option)
   \<and> secret (classic_session_options Map.empty) = Some ''secret_fallback_key''
   \<and> secret (serverless_session_options Map.empty) = None"
  using session_secret_fallback [of Map.empty] by simp

section \<open>Properties of the error handlers and of the CORS policy\<close>

lemma classic_error_handler_sent:
  "sent (classic_error_handler err fresh_res) =
     [(status_or_500 err, \<lparr> success = False, message = message_or_default err \<rparr>)]"
  by (simp add: classic_error_handler_def res_json_def res_status_def fresh_res_def)

lemma serverless_error_handler_sent:
  "sent (serverless_error_handler err fresh_res) =
     [(500, \<lparr> success = False, message = message_or_default err \<rparr>)]"
  by (simp add: serverless_error_handler_def res_json_def res_status_def fresh_res_def)

text \<open>
  C6. Every error reaching the terminal error handler gets exactly one JSON response
  \<^verbatim>\<open>{ success: false, message }\<close> whose HTTP status is the error's status code when
  it has one and 500 otherwise. The serverless handler breaks the status part: an error
  carrying status 400 (what the body parsers raise on a malformed body) is answered with
  500, where the classic handler answers the same error with 400. The response is
  still a single one with \<^verbatim>\<open>success: false\<close>.
\<close>

theorem serverless_error_handler_drops_status:
  "sent (serverless_error_handler
           \<lparr> err_status = Some 400, err_message = Some ''Unexpected end of JSON input'' \<rparr>
           fresh_res)
     = [(500, \<lparr> success = False, message = ''Unexpected end of JSON input'' \<rparr>)]
   \<and> sent (classic_error_handler
           \<lparr> err_status = Some 400, err_message = Some ''Unexpected end of JSON input'' \<rparr>
           fresh_res)
     = [(400, \<lparr> success = False, message = ''Unexpected end of JSON input'' \<rparr>)]"
  by (simp add: classic_error_handler_sent serverless_error_handler_sent
      status_or_500_def message_or_default_def)

lemma cors_rejection_answered:
  "sent (classic_error_handler (new_Error ''Not allowed by CORS'') fresh_res)
     = [(500, \<lparr> success = False, message = ''Not allowed by CORS'' \<rparr>)]
   \<and> sent (serverless_error_handler (new_Error ''Not allowed by CORS'') fresh_res)
     = [(500, \<lparr> success = False, message = ''Not allowed by CORS'' \<rparr>)]"
  by (simp add: classic_error_handler_sent serverless_error_handler_sent
      status_or_500_def message_or_default_def new_Error_def)

text \<open>
  C7, as the claim states it, fails: an Origin header that is present with an empty
  value is not in the allow-list, yet \<^verbatim>\<open>!origin\<close> holds of the empty string and the
  request is accepted.
\<close>

theorem cors_empty_origin_accepted:
  "Some [] \<notin> set (allowedOrigins Map.empty)
   \<and> origin_check Map.empty (Some []) = Inr True"
  by (simp add: origin_check_def allowedOrigins_def)

text \<open>
  C7, amended. The origin check accepts every request whose Origin header is absent or
  empty, accepts every request whose Origin is in the allow-list (the configured
  frontend URL, \<^verbatim>\<open>http://localhost:5173\<close>, \<^verbatim>\<open>http://localhost:3000\<close>), and for
  every other Origin calls back with the error \<^verbatim>\<open>Not allowed by CORS\<close>, which the
  terminal error handler of either variant answers with one JSON failure response of
  status 500, outside the 2xx range.
\<close>

theorem cors_origin_policy:
  "(ori = None \<or> ori = Some [] \<longrightarrow> origin_check e ori = Inr True)
   \<and> (ori \<in> set (allowedOrigins e) \<longrightarrow> origin_check e ori = Inr True)
   \<and> (ori \<noteq> None \<and> ori \<noteq> Some [] \<and> ori \<notin> set (allowedOrigins e) \<longrightarrow>
        origin_check e ori = Inl (new_Error ''Not allowed by CORS'')
        \<and> (\<forall>handler \<in> {classic_error_handler, serverless_error_handler}.
              \<exists>body. sent (handler (new_Error ''Not allowed by CORS'') fresh_res) = [(500, body)]
                     \<and> \<not> success body)
        \<and> \<not> (200 \<le> (500::int) \<and> (500::int) < 300))"
proof -
  have absent: "ori = None \<or> ori = Some [] \<Longrightarrow> origin_check e ori = Inr True"
    by (auto simp: origin_check_def)
  have listed: "ori \<in> set (allowedOrigins e) \<Longrightarrow> origin_check e ori = Inr True"
    by (simp add: origin_check_def)
  have other: "origin_check e ori = Inl (new_Error ''Not allowed by CORS'')"
    if "ori \<noteq> None" "ori \<noteq> Some []" "ori \<notin> set (allowedOrigins e)"
  proof -
    from that(1,2) have "truthy ori" by (cases ori) auto
    with that(3) show ?thesis by (simp add: origin_check_def)
  qed
  from absent listed other cors_rejection_answered show ?thesis
    by auto
qed

theorem cors_origin_policy_witness:
  "origin_check Map.empty None = Inr True
   \<and> origin_check Map.empty (Some ''http://localhost:5173'') = Inr True
   \<and> origin_check Map.empty (Some ''http://evil.example'')
       = Inl (new_Error ''Not allowed by CORS'')
   \<and> classic_gateway Map.empty
        \<lparr> req_method = ''GET'', origin = Some ''http://evil.example'', parse_error = None \<rparr>
       = Responded \<lparr> statusCode = 500,
           sent = [(500, \<lparr> success = False, message = ''Not allowed by CORS'' \<rparr>)] \<rparr>"
  using cors_origin_policy [of None Map.empty]
    cors_origin_policy [of "Some ''http://localhost:5173''" Map.empty]
    cors_origin_policy [of "Some ''http://evil.example''" Map.empty]
  by (simp add: allowedOrigins_def classic_gateway_def front_middleware_def
      classic_error_handler_def res_json_def res_status_def fresh_res_def
      status_or_500_def message_or_default_def new_Error_def)

section \<open>Unfolding sets\<close>

lemmas io_defs = io_return_def io_throw_def io_then_def io_catch_def console_log_def
  model_User_def updateMany_def dropIndex_def syncIndexes_def cleanup_null_ids_def

lemmas sample_defs = no_faults_def sample_world_def evil_request_def plain_request_def refused_def

lemmas gateway_defs = classic_gateway_def front_middleware_def origin_check_def allowedOrigins_def
  classic_error_handler_def serverless_error_handler_def res_json_def res_status_def fresh_res_def
  status_or_500_def message_or_default_def new_Error_def

lemmas classic_defs = classic_startup_def classic_step_def classic_on_settle_def
  classic_catch_handler_def classic_then_handler_def classic_index_maintenance_def

lemmas serverless_defs = serverless_startup_def request_arrives_def connectDB_begin_def
  connectDB_resume_def connectDB_returns_def connect_settles_def results_def
  serverless_then_handler_def serverless_index_maintenance_def

section \<open>The index maintenance never throws\<close>

lemma classic_maintenance_total: "fst (classic_index_maintenance b w) = Inr ()"
  by (simp add: classic_index_maintenance_def io_defs Let_def split: option.splits)

lemma serverless_maintenance_total: "fst (serverless_index_maintenance b w) = Inr ()"
  by (simp add: serverless_index_maintenance_def io_defs Let_def split: option.splits)

lemma classic_then_handler_total: "fst (classic_then_handler b m w) = Inr (getClient m)"
proof -
  obtain w1 where 1: "console_log ''MongoDB connected successfully'' w = (Inr (), w1)"
    by (simp add: console_log_def)
  obtain w2 where 2: "classic_index_maintenance b w1 = (Inr (), w2)"
    using classic_maintenance_total [of b w1] by (cases "classic_index_maintenance b w1") auto
  show ?thesis
    by (simp add: classic_then_handler_def io_then_def io_return_def 1 2)
qed

lemma serverless_then_handler_total: "fst (serverless_then_handler b m w) = Inr m"
proof -
  obtain w1 where 1: "console_log ''MongoDB connected'' w = (Inr (), w1)"
    by (simp add: console_log_def)
  obtain w2 where 2: "serverless_index_maintenance b w1 = (Inr (), w2)"
    using serverless_maintenance_total [of b w1] by (cases "serverless_index_maintenance b w1") auto
  show ?thesis
    by (simp add: serverless_then_handler_def io_then_def io_return_def 1 2)
qed

lemma classic_outer_catch_logged:
  "model_fault b = Some err
   \<or> model_fault b = None \<and> updateMany_fault b = Some err
   \<or> model_fault b = None \<and> updateMany_fault b = None \<and> syncIndexes_fault b = Some err \<Longrightarrow>
   last (console (snd (classic_index_maintenance b w)))
     = ''Index maintenance skipped: '' @ shown_message err"
  by (auto simp add: classic_index_maintenance_def io_defs Let_def split: option.splits)

lemma serverless_outer_catch_logged:
  "model_fault b = Some err
   \<or> model_fault b = None \<and> updateMany_fault b = Some err
   \<or> model_fault b = None \<and> updateMany_fault b = None \<and> syncIndexes_fault b = Some err \<Longrightarrow>
   last (console (snd (serverless_index_maintenance b w)))
     = ''Index sync skipped: '' @ shown_message err"
  by (auto simp add: serverless_index_maintenance_def io_defs Let_def split: option.splits)

lemma classic_drop_failure_swallowed:
  "model_fault b = None \<Longrightarrow> updateMany_fault b = None \<Longrightarrow>
   dropIndex_fault b \<noteq> None \<or> ''supabaseUserId_1'' \<notin> set (user_indexes (db w)) \<Longrightarrow>
   issued (snd (classic_index_maintenance b w)) = issued w @ [UpdateMany, DropIndex, SyncIndexes]
   \<and> ''Old index not found or already updated.'' \<in> set (console (snd (classic_index_maintenance b w)))"
  by (auto simp add: classic_index_maintenance_def io_defs Let_def split: option.splits)

lemma serverless_drop_failure_swallowed:
  "model_fault b = None \<Longrightarrow> updateMany_fault b = None \<Longrightarrow>
   dropIndex_fault b \<noteq> None \<or> ''supabaseUserId_1'' \<notin> set (user_indexes (db w)) \<Longrightarrow>
   issued (snd (serverless_index_maintenance b w)) = issued w @ [UpdateMany, DropIndex, SyncIndexes]
   \<and> ''Index already clean'' \<in> set (console (snd (serverless_index_maintenance b w)))"
  by (auto simp add: serverless_index_maintenance_def io_defs Let_def split: option.splits)

section \<open>Runs of the classic server\<close>

lemma classic_step_exited: "exit_code p \<noteq> None \<Longrightarrow> classic_step b e ev p = p"
  by (simp add: classic_step_def)

lemma classic_run_exited: "exit_code p \<noteq> None \<Longrightarrow> classic_run b e evs p = p"
  by (induction evs) (simp_all add: classic_step_exited)

lemma classic_run_append: "classic_run b e (xs @ ys) p = classic_run b e ys (classic_run b e xs p)"
  by (induction xs arbitrary: p) simp_all

lemma classic_run_incoming:
  "list_all is_incoming pre \<Longrightarrow> exit_code p = None \<Longrightarrow> listening p \<Longrightarrow>
     classic_run b e pre p = p\<lparr> handled := handled p @ map (classic_gateway e) (requests_of pre) \<rparr>"
proof (induction pre arbitrary: p)
  case Nil
  then show ?case by simp
next
  case (Cons ev pre)
  then obtain rq where ev: "ev = Incoming rq" by (cases ev) auto
  from Cons.prems have "classic_step b e ev p = p\<lparr> handled := handled p @ [classic_gateway e rq] \<rparr>"
    by (simp add: classic_step_def ev)
  with Cons show ?case by (simp add: ev)
qed

lemma classic_on_settle_ok:
  "exit_code p = None \<Longrightarrow> exit_code (classic_on_settle b (Inr m) p) = None
     \<and> clientPromise (classic_on_settle b (Inr m) p) = Some (getClient m)
     \<and> listening (classic_on_settle b (Inr m) p) = listening p
     \<and> classic_connect_calls (classic_on_settle b (Inr m) p) = classic_connect_calls p"
  using classic_then_handler_total [of b m "classic_world p"]
  by (cases "classic_then_handler b m (classic_world p)") (auto simp: classic_on_settle_def)

lemma classic_on_settle_fail:
  "exit_code (classic_on_settle b (Inl err) p) = Some 1
   \<and> handled (classic_on_settle b (Inl err) p) = handled p"
  by (simp add: classic_on_settle_def classic_catch_handler_def)

lemma classic_connected_step:
  "exit_code p = None \<Longrightarrow> clientPromise p = Some c \<Longrightarrow>
     exit_code (classic_step b e ev p) = None \<and> clientPromise (classic_step b e ev p) = Some c"
  by (cases ev) (simp_all add: classic_step_def)

lemma classic_connected_run:
  "exit_code p = None \<Longrightarrow> clientPromise p = Some c \<Longrightarrow>
     exit_code (classic_run b e evs p) = None \<and> clientPromise (classic_run b e evs p) = Some c"
  by (induction evs arbitrary: p) (simp_all add: classic_connected_step)

lemma classic_calls_step: "classic_connect_calls (classic_step b e ev p) = classic_connect_calls p"
proof (cases ev)
  case (ConnectSettles r)
  show ?thesis
  proof (cases r)
    case (Inl err)
    then show ?thesis by (simp add: ConnectSettles classic_step_def classic_on_settle_def classic_catch_handler_def)
  next
    case (Inr m)
    then show ?thesis
     by (cases "classic_then_handler b m (classic_world p)")
        (auto simp add: ConnectSettles classic_step_def classic_on_settle_def classic_catch_handler_def split: sum.splits)
  qed
next
  case (Incoming rq)
  then show ?thesis by (simp add: classic_step_def)
qed

lemma classic_calls_run: "classic_connect_calls (classic_run b e evs p) = classic_connect_calls p"
  by (induction evs arbitrary: p) (simp_all add: classic_calls_step)

lemma classic_exit_cause:
  "exit_code p = None \<Longrightarrow> clientPromise p = None \<Longrightarrow> listening p \<Longrightarrow>
   exit_code (classic_run b e evs p) \<noteq> None \<Longrightarrow>
   \<exists>pre err post. evs = pre @ ConnectSettles (Inl err) # post \<and> list_all is_incoming pre"
proof (induction evs arbitrary: p)
  case Nil
  then show ?case by simp
next
  case (Cons ev evs)
  show ?case
  proof (cases ev)
    case (Incoming rq)
    let ?p = "classic_step b e ev p"
    from Cons.prems Incoming have "exit_code ?p = None" "clientPromise ?p = None" "listening ?p"
      by (simp_all add: classic_step_def)
    moreover from Cons.prems have "exit_code (classic_run b e evs ?p) \<noteq> None" by simp
    ultimately obtain pre err post
      where "evs = pre @ ConnectSettles (Inl err) # post" "list_all is_incoming pre"
      using Cons.IH by blast
    with Incoming have "ev # evs = (ev # pre) @ ConnectSettles (Inl err) # post \<and> list_all is_incoming (ev # pre)"
      by simp
    then show ?thesis by blast
  next
    case (ConnectSettles r)
    show ?thesis
    proof (cases r)
      case (Inl err)
      with ConnectSettles have "ev # evs = [] @ ConnectSettles (Inl err) # evs \<and> list_all is_incoming []"
        by simp
      then show ?thesis by blast
    next
      case (Inr m)
      let ?p = "classic_step b e ev p"
      from Cons.prems ConnectSettles Inr have "?p = classic_on_settle b (Inr m) p"
        by (simp add: classic_step_def)
      with classic_on_settle_ok [OF Cons.prems(1), of b m]
      have "exit_code ?p = None" "clientPromise ?p = Some (getClient m)" by simp_all
      then have "exit_code (classic_run b e evs ?p) = None"
        by (simp add: classic_connected_run)
      with Cons.prems show ?thesis by simp
    qed
  qed
qed

section \<open>Runs of the serverless function\<close>

lemma serverless_run_append:
  "serverless_run b e (xs @ ys) s = serverless_run b e ys (serverless_run b e xs s)"
  by (induction xs arbitrary: s) simp_all

lemma one_attempt: "length xs \<le> 1 \<Longrightarrow> p < length xs \<Longrightarrow> xs ! p = Some r \<Longrightarrow> xs = [Some r]"
  by (cases xs) auto

lemma inv_returns: "cm_inv s \<Longrightarrow> attempts s = [Some r] \<Longrightarrow> cm_inv (connectDB_returns e c k r s)"
  by (auto simp: cm_inv_def connectDB_returns_def Let_def split: caller_kind.splits sum.splits)

lemma inv_begin: "cm_inv s \<Longrightarrow> cm_inv (connectDB_begin e c k s)"
proof (cases "conn (cached s)")
  case None
  assume "cm_inv s"
  with None show ?thesis
    by (auto simp: cm_inv_def connectDB_begin_def Let_def split: option.splits)
next
  case (Some m)
  assume i: "cm_inv s"
  with Some have "attempts s = [Some (Inr m)]" by (simp add: cm_inv_def)
  with i Some show ?thesis by (simp add: connectDB_begin_def inv_returns)
qed

lemma inv_settles: "cm_inv s \<Longrightarrow> cm_inv (connect_settles b p r s)"
  apply (auto simp: cm_inv_def connect_settles_def split: sum.splits prod.splits)
  done

lemma inv_resume: "cm_inv s \<Longrightarrow> cm_inv (connectDB_resume e c s)"
proof -
  assume i: "cm_inv s"
  show ?thesis
  proof (cases "find (\<lambda>(c', p, k). c' = c) (awaiting s)")
    case None
    with i show ?thesis by (simp add: connectDB_resume_def)
  next
    case (Some t)
    obtain c' p k where t: "t = (c', p, k)" by (cases t) auto
    show ?thesis
    proof (cases "p < length (attempts s)")
      case False
      with i Some t show ?thesis by (simp add: connectDB_resume_def)
    next
      case True
      show ?thesis
      proof (cases "attempts s ! p")
        case None
        with i Some t True show ?thesis by (simp add: connectDB_resume_def)
      next
        case (Some r)
        from i have "length (attempts s) \<le> 1" by (simp add: cm_inv_def)
        from this True Some have a: "attempts s = [Some r]" by (rule one_attempt)
        let ?s1 = "s\<lparr> awaiting := remove1 (c', p, k) (awaiting s) \<rparr>"
        from i have i1: "cm_inv ?s1" by (simp add: cm_inv_def)
        show ?thesis
        proof (cases r)
          case (Inl err)
          from i1 a have "cm_inv (connectDB_returns e c k r ?s1)"
            by (intro inv_returns) simp_all
          with \<open>find _ _ = Some t\<close> t True Some Inl show ?thesis
            by (simp add: connectDB_resume_def)
        next
          case (Inr m)
          let ?s2 = "s\<lparr> awaiting := remove1 (c', p, k) (awaiting s),
                       cached := (cached s)\<lparr> conn := Some m \<rparr> \<rparr>"
          from i a Inr have "cm_inv ?s2" by (simp add: cm_inv_def)
          with a have "cm_inv (connectDB_returns e c k r ?s2)"
            by (intro inv_returns) simp_all
          with \<open>find _ _ = Some t\<close> t True Some Inr show ?thesis
            by (simp add: connectDB_resume_def)
        qed
      qed
    qed
  qed
qed

lemma inv_arrives: "cm_inv s \<Longrightarrow> cm_inv (request_arrives e c rq s)"
  by (cases "front_middleware e rq") (simp_all add: request_arrives_def inv_begin, simp_all add: cm_inv_def)

lemma inv_step: "cm_inv s \<Longrightarrow> cm_inv (serverless_step b e ev s)"
  by (cases ev) (simp_all add: inv_arrives inv_begin inv_settles inv_resume)

lemma inv_run: "cm_inv s \<Longrightarrow> cm_inv (serverless_run b e evs s)"
  by (induction evs arbitrary: s) (simp_all add: inv_step)

lemma inv_startup: "cm_inv (serverless_startup w)"
  by (simp add: cm_inv_def serverless_startup_def)

lemma results_agree:
  "cm_inv s \<Longrightarrow> x \<in> set (results s) \<Longrightarrow> attempts s = [Some x]"
  by (auto simp: cm_inv_def results_def)

lemma serverless_first_settle:
  "attempts (serverless_run b e [Calls c, Settles 0 (Inr m)] (serverless_startup w)) = [Some (Inr m)]"
  using serverless_then_handler_total [of b m w]
  by (cases "serverless_then_handler b m w")
     (simp add: serverless_startup_def connectDB_begin_def connect_settles_def)

subsection \<open>Suspended callers\<close>

lemma aw_returns: "awaiting_inv s \<Longrightarrow> awaiting_inv (connectDB_returns e c k r s)"
  by (auto simp: awaiting_inv_def connectDB_returns_def Let_def split: caller_kind.splits sum.splits)

lemma aw_begin: "cm_inv s \<Longrightarrow> awaiting_inv s \<Longrightarrow> awaiting_inv (connectDB_begin e c k s)"
proof (cases "conn (cached s)")
  case None
  assume "cm_inv s" "awaiting_inv s"
  with None show ?thesis
    by (auto simp: cm_inv_def awaiting_inv_def connectDB_begin_def Let_def
        split: option.splits if_splits)
next
  case (Some m)
  assume "awaiting_inv s"
  with Some show ?thesis by (simp add: connectDB_begin_def aw_returns)
qed

lemma aw_settles: "awaiting_inv s \<Longrightarrow> awaiting_inv (connect_settles b p r s)"
  by (auto simp: awaiting_inv_def connect_settles_def split: sum.splits prod.splits)

lemma aw_remove: "awaiting_inv s \<Longrightarrow> awaiting_inv (s\<lparr> awaiting := remove1 t (awaiting s) \<rparr>)"
  by (auto simp: awaiting_inv_def dest: notin_set_remove1)

lemma aw_remove_conn:
  "awaiting_inv s \<Longrightarrow>
     awaiting_inv (s\<lparr> awaiting := remove1 t (awaiting s), cached := (cached s)\<lparr> conn := Some m \<rparr> \<rparr>)"
  by (auto simp: awaiting_inv_def dest: notin_set_remove1)

lemma aw_resume: "awaiting_inv s \<Longrightarrow> awaiting_inv (connectDB_resume e c s)"
  by (auto simp: connectDB_resume_def aw_returns aw_remove aw_remove_conn
      split: option.splits sum.splits prod.splits)

lemma aw_arrives: "cm_inv s \<Longrightarrow> awaiting_inv s \<Longrightarrow> awaiting_inv (request_arrives e c rq s)"
  by (cases "front_middleware e rq")
     (simp_all add: request_arrives_def aw_begin, simp_all add: awaiting_inv_def)

lemma aw_step: "cm_inv s \<Longrightarrow> awaiting_inv s \<Longrightarrow> awaiting_inv (serverless_step b e ev s)"
  by (cases ev) (simp_all add: aw_arrives aw_begin aw_settles aw_resume)

lemma aw_run: "cm_inv s \<Longrightarrow> awaiting_inv s \<Longrightarrow> awaiting_inv (serverless_run b e evs s)"
  by (induction evs arbitrary: s) (simp_all add: aw_step inv_step)

lemma aw_startup: "awaiting_inv (serverless_startup w)"
  by (simp add: awaiting_inv_def serverless_startup_def)

lemma attempts_returns: "attempts (connectDB_returns e c k r s) = attempts s"
  by (simp add: connectDB_returns_def Let_def split: caller_kind.splits sum.splits)

lemma settled_step:
  "cm_inv s \<Longrightarrow> attempts s = [Some v] \<Longrightarrow> attempts (serverless_step b e ev s) = [Some v]"
proof (cases ev)
  case (Arrives c rq)
  assume "cm_inv s" "attempts s = [Some v]"
  then show ?thesis
    by (cases "front_middleware e rq")
       (auto simp: Arrives request_arrives_def connectDB_begin_def attempts_returns cm_inv_def
          split: option.splits)
next
  case (Calls c)
  assume "cm_inv s" "attempts s = [Some v]"
  then show ?thesis
    by (auto simp: Calls connectDB_begin_def attempts_returns cm_inv_def split: option.splits)
next
  case (Settles p r)
  assume "attempts s = [Some v]"
  then show ?thesis
    by (auto simp: Settles connect_settles_def split: sum.splits prod.splits)
next
  case (Resumes c)
  assume "attempts s = [Some v]"
  then show ?thesis
    by (auto simp: Resumes connectDB_resume_def attempts_returns
        split: option.splits sum.splits prod.splits)
qed

lemma settled_run:
  "cm_inv s \<Longrightarrow> attempts s = [Some v] \<Longrightarrow> attempts (serverless_run b e evs s) = [Some v]"
  by (induction evs arbitrary: s) (simp_all add: settled_step inv_step)

lemma resume_rejected:
  assumes aw: "awaiting_inv s" and a: "attempts s = [Some (Inl err)]"
    and m: "(c, p, k) \<in> set (awaiting s)"
  shows "results (connectDB_resume e c s) = results s @ [Inl err]"
proof -
  from m have "\<exists>x \<in> set (awaiting s). (\<lambda>(c', p, k). c' = c) x" by auto
  then obtain t where f: "find (\<lambda>(c', p, k). c' = c) (awaiting s) = Some t"
    by (cases "find (\<lambda>(c', p, k). c' = c) (awaiting s)") (auto simp: find_None_iff)
  obtain c' p' k' where t: "t = (c', p', k')" by (cases t) auto
  from f t have "(c', p', k') \<in> set (awaiting s)"
    by (auto simp: find_Some_iff in_set_conv_nth)
  with aw a have "p' = 0" by (auto simp: awaiting_inv_def)
  with f t a show ?thesis
    by (simp add: connectDB_resume_def connectDB_returns_def results_def Let_def
        split: caller_kind.splits)
qed

lemma call_when_rejected:
  assumes i: "cm_inv s" and a: "attempts s = [Some (Inl err)]"
  shows "connectDB_begin e c k s = s\<lparr> awaiting := awaiting s @ [(c, 0, k)] \<rparr>"
proof -
  from i a have "conn (cached s) = None" "promise (cached s) = Some 0"
    by (auto simp: cm_inv_def)
  then show ?thesis by (simp add: connectDB_begin_def)
qed

subsection \<open>Stores and session middleware\<close>

lemma st_returns: "store_inv e s \<Longrightarrow> store_inv e (connectDB_returns e c k r s)"
  by (cases k; cases r)
     (simp_all add: store_inv_def connectDB_returns_def middleware_connected_def Let_def)

lemma st_begin: "store_inv e s \<Longrightarrow> store_inv e (connectDB_begin e c k s)"
  by (cases "conn (cached s)"; cases "promise (cached s)")
     (simp_all add: connectDB_begin_def st_returns Let_def,
      simp_all add: store_inv_def middleware_connected_def)

lemma st_settles: "store_inv e s \<Longrightarrow> store_inv e (connect_settles b p r s)"
  by (auto simp: store_inv_def middleware_connected_def connect_settles_def
      split: sum.splits prod.splits)

lemma st_field:
  "store_inv e s \<Longrightarrow> store_inv e (s\<lparr> awaiting := aw \<rparr>)"
  "store_inv e s \<Longrightarrow> store_inv e (s\<lparr> awaiting := aw, cached := ca \<rparr>)"
  "store_inv e s \<Longrightarrow> store_inv e (s\<lparr> answered := an \<rparr>)"
  by (simp_all add: store_inv_def middleware_connected_def)

lemma st_resume: "store_inv e s \<Longrightarrow> store_inv e (connectDB_resume e c s)"
  by (auto simp: connectDB_resume_def st_returns st_field
      split: option.splits sum.splits prod.splits)

lemma st_arrives: "store_inv e s \<Longrightarrow> store_inv e (request_arrives e c rq s)"
  by (cases "front_middleware e rq") (simp_all add: request_arrives_def st_begin st_field)

lemma st_step: "store_inv e s \<Longrightarrow> store_inv e (serverless_step b e ev s)"
  by (cases ev) (simp_all add: st_arrives st_begin st_settles st_resume)

lemma st_run: "store_inv e s \<Longrightarrow> store_inv e (serverless_run b e evs s)"
  by (induction evs arbitrary: s) (simp_all add: st_step)

lemma st_startup: "store_inv e (serverless_startup w)"
  by (simp add: store_inv_def middleware_connected_def serverless_startup_def)

section \<open>Properties of the connection manager\<close>

text \<open>
  C1. The connection accessor is idempotent. Serverless function: over every
  interleaving of arriving requests, direct calls of \<^verbatim>\<open>connectDB\<close>, settlements and
  resumptions, \<^verbatim>\<open>mongoose.connect\<close> is called at most once and all calls of
  \<^verbatim>\<open>connectDB\<close> that have returned have the same outcome, hence the same connection
  handle. Classic server: \<^verbatim>\<open>mongoose.connect\<close> is called exactly once, and once
  \<^verbatim>\<open>clientPromise\<close> holds a client it holds that client at every later moment.
\<close>

theorem connection_accessor_idempotent:
  "connect_calls (serverless_run b e evs (serverless_startup w)) \<le> 1
   \<and> (\<forall>x \<in> set (results (serverless_run b e evs (serverless_startup w))).
       \<forall>y \<in> set (results (serverless_run b e evs (serverless_startup w))). x = y)
   \<and> classic_connect_calls (classic_run b e cevs (classic_startup w)) = 1
   \<and> (clientPromise (classic_run b e cevs (classic_startup w)) = Some h \<longrightarrow>
        clientPromise (classic_run b e (cevs @ later) (classic_startup w)) = Some h)"
proof -
  let ?s = "serverless_run b e evs (serverless_startup w)"
  have inv: "cm_inv ?s" by (intro inv_run inv_startup)
  then have calls: "connect_calls ?s \<le> 1" by (simp add: cm_inv_def)
  have same: "x = y" if "x \<in> set (results ?s)" "y \<in> set (results ?s)" for x y
    using results_agree [OF inv that(1)] results_agree [OF inv that(2)] by simp
  let ?p = "classic_run b e cevs (classic_startup w)"
  have once: "classic_connect_calls ?p = 1"
    by (simp add: classic_calls_run classic_startup_def)
  have stable: "clientPromise (classic_run b e (cevs @ later) (classic_startup w)) = Some h"
    if h: "clientPromise ?p = Some h"
  proof (cases "exit_code ?p")
    case None
    with h show ?thesis by (simp add: classic_run_append classic_connected_run)
  next
    case (Some c)
    with h show ?thesis by (simp add: classic_run_append classic_run_exited)
  qed
  from calls same once stable show ?thesis by blast
qed

theorem connection_accessor_idempotent_witness:
  "connect_calls (serverless_run no_faults Map.empty
       [Arrives 1 plain_request, Calls 2, Settles 0 (Inr (Mongoose 7)), Resumes 1, Resumes 2,
        Arrives 3 plain_request, Calls 4]
       (serverless_startup sample_world)) \<le> 1
   \<and> results (serverless_run no_faults Map.empty
       [Arrives 1 plain_request, Calls 2, Settles 0 (Inr (Mongoose 7)), Resumes 1, Resumes 2,
        Arrives 3 plain_request, Calls 4]
       (serverless_startup sample_world))
     = [Inr (Mongoose 7), Inr (Mongoose 7), Inr (Mongoose 7), Inr (Mongoose 7)]
   \<and> classic_connect_calls (classic_run no_faults Map.empty
       [Incoming plain_request, ConnectSettles (Inr (Mongoose 7))]
       (classic_startup sample_world)) = 1
   \<and> clientPromise (classic_run no_faults Map.empty
       [Incoming plain_request, ConnectSettles (Inr (Mongoose 7))]
       (classic_startup sample_world)) = Some (MongoClient 7)
   \<and> clientPromise (classic_run no_faults Map.empty
       ([Incoming plain_request, ConnectSettles (Inr (Mongoose 7))] @ [Incoming plain_request])
       (classic_startup sample_world)) = Some (MongoClient 7)"
  using connection_accessor_idempotent [of no_faults Map.empty
      "[Arrives 1 plain_request, Calls 2, Settles 0 (Inr (Mongoose 7)), Resumes 1, Resumes 2,
        Arrives 3 plain_request, Calls 4]" sample_world
      "[Incoming plain_request, ConnectSettles (Inr (Mongoose 7))]" "MongoClient 7"
      "[Incoming plain_request]"]
  by (simp add: serverless_defs classic_defs gateway_defs io_defs sample_defs Let_def)

text \<open>
  C2, as the claim states it, fails: after a rejected attempt, a later request does not
  start a fresh attempt. \<^verbatim>\<open>mongoose.connect\<close> has still been called once, the
  rejected promise is still the cached one, and the later request receives the same
  rejection.
\<close>

theorem failed_attempt_is_not_retried:
  "connect_calls (serverless_run no_faults Map.empty
       [Arrives 1 plain_request, Settles 0 (Inl refused), Resumes 1,
        Arrives 2 plain_request, Resumes 2]
       (serverless_startup sample_world)) = 1
   \<and> attempts (serverless_run no_faults Map.empty
       [Arrives 1 plain_request, Settles 0 (Inl refused), Resumes 1,
        Arrives 2 plain_request, Resumes 2]
       (serverless_startup sample_world)) = [Some (Inl refused)]
   \<and> returned (serverless_run no_faults Map.empty
       [Arrives 1 plain_request, Settles 0 (Inl refused), Resumes 1,
        Arrives 2 plain_request, Resumes 2]
       (serverless_startup sample_world))
     = [(1, Middleware, Inl refused), (2, Middleware, Inl refused)]"
  by (simp add: serverless_defs gateway_defs sample_defs Let_def)

text \<open>
  C2, amended. When the lazy connection attempt is rejected with an error, every caller
  suspended on it receives that error when it resumes, and the rejected attempt stays
  in the cache: whatever happens later, \<^verbatim>\<open>mongoose.connect\<close> is not called again,
  every call of \<^verbatim>\<open>connectDB\<close> that returns has returned that same error, and a
  new call followed by its resumption returns it once more.
\<close>

theorem rejection_propagates_and_stays:
  assumes "attempts (serverless_run b e evs (serverless_startup w)) = [Some (Inl err)]"
  shows "(\<forall>x \<in> set (awaiting (serverless_run b e evs (serverless_startup w))).
            results (connectDB_resume e (fst x) (serverless_run b e evs (serverless_startup w)))
              = results (serverless_run b e evs (serverless_startup w)) @ [Inl err])
     \<and> (\<forall>r \<in> set (results (serverless_run b e (evs @ later) (serverless_startup w))). r = Inl err)
     \<and> connect_calls (serverless_run b e (evs @ later) (serverless_startup w)) = 1
     \<and> attempts (serverless_run b e (evs @ later) (serverless_startup w)) = [Some (Inl err)]
     \<and> results (serverless_run b e (evs @ [Calls c, Resumes c]) (serverless_startup w))
         = results (serverless_run b e evs (serverless_startup w)) @ [Inl err]"
proof -
  let ?s = "serverless_run b e evs (serverless_startup w)"
  let ?t = "serverless_run b e (evs @ later) (serverless_startup w)"
  have i: "cm_inv ?s" by (intro inv_run inv_startup)
  have aw: "awaiting_inv ?s" by (intro aw_run inv_startup aw_startup)
  have waiting: "results (connectDB_resume e (fst x) ?s) = results ?s @ [Inl err]"
    if "x \<in> set (awaiting ?s)" for x
  proof -
    obtain c' p k where x: "x = (c', p, k)" by (cases x) auto
    with that resume_rejected [OF aw assms, of c' p k e] show ?thesis by simp
  qed
  have it: "cm_inv ?t" by (intro inv_run inv_startup)
  have at: "attempts ?t = [Some (Inl err)]"
    using settled_run [OF i assms] by (simp add: serverless_run_append)
  have rt: "r = Inl err" if "r \<in> set (results ?t)" for r
    using results_agree [OF it that] at by simp
  from it at have ct: "connect_calls ?t = 1" by (simp add: cm_inv_def)
  let ?s1 = "?s\<lparr> awaiting := awaiting ?s @ [(c, 0, Direct)] \<rparr>"
  have b: "connectDB_begin e c Direct ?s = ?s1"
    using i assms by (rule call_when_rejected)
  have "awaiting_inv ?s1" using aw assms by (auto simp: awaiting_inv_def)
  moreover have "attempts ?s1 = [Some (Inl err)]" using assms by simp
  moreover have "(c, 0, Direct) \<in> set (awaiting ?s1)" by simp
  ultimately have "results (connectDB_resume e c ?s1) = results ?s1 @ [Inl err]"
    by (rule resume_rejected)
  with b have again: "results (serverless_run b e (evs @ [Calls c, Resumes c]) (serverless_startup w))
         = results ?s @ [Inl err]"
    by (simp add: serverless_run_append results_def)
  from waiting rt ct at again show ?thesis by blast
qed

theorem rejection_propagates_and_stays_witness:
  "attempts (serverless_run no_faults Map.empty
       [Arrives 1 plain_request, Calls 2, Settles 0 (Inl refused), Resumes 1]
       (serverless_startup sample_world)) = [Some (Inl refused)]
   \<and> awaiting (serverless_run no_faults Map.empty
       [Arrives 1 plain_request, Calls 2, Settles 0 (Inl refused), Resumes 1]
       (serverless_startup sample_world)) = [(2, 0, Direct)]
   \<and> results (connectDB_resume Map.empty 2 (serverless_run no_faults Map.empty
       [Arrives 1 plain_request, Calls 2, Settles 0 (Inl refused), Resumes 1]
       (serverless_startup sample_world))) = [Inl refused, Inl refused]
   \<and> results (serverless_run no_faults Map.empty
       ([Arrives 1 plain_request, Calls 2, Settles 0 (Inl refused), Resumes 1]
          @ [Resumes 2, Arrives 3 plain_request, Settles 0 (Inr (Mongoose 7)), Resumes 3])
       (serverless_startup sample_world)) = [Inl refused, Inl refused, Inl refused]
   \<and> connect_calls (serverless_run no_faults Map.empty
       ([Arrives 1 plain_request, Calls 2, Settles 0 (Inl refused), Resumes 1]
          @ [Resumes 2, Arrives 3 plain_request, Settles 0 (Inr (Mongoose 7)), Resumes 3])
       (serverless_startup sample_world)) = 1"
  using rejection_propagates_and_stays [of no_faults Map.empty
      "[Arrives 1 plain_request, Calls 2, Settles 0 (Inl refused), Resumes 1]" sample_world refused
      "[Resumes 2, Arrives 3 plain_request, Settles 0 (Inr (Mongoose 7)), Resumes 3]" 4]
  by (simp add: serverless_defs gateway_defs sample_defs Let_def)

section \<open>Properties of the index maintenance\<close>

text \<open>
  C3. No exception of the index maintenance propagates, in either variant: the block
  and the \<^verbatim>\<open>.then\<close> handler around it always return, so a fulfilled connection
  attempt leaves the classic server running with its client and fulfils the serverless
  attempt, whatever fails. An error of the model lookup, the bulk update or the index
  synchronisation ends the block with the line that reports it as skipped; a failure of
  \<^verbatim>\<open>dropIndex\<close>, in particular when the index \<^verbatim>\<open>supabaseUserId_1\<close> does not
  exist, is logged by the inner handler and \<^verbatim>\<open>syncIndexes\<close> is still issued.
\<close>

theorem index_maintenance_failures_are_swallowed:
  "fst (classic_index_maintenance b w) = Inr ()
   \<and> fst (serverless_index_maintenance b w) = Inr ()
   \<and> fst (classic_then_handler b m w) = Inr (getClient m)
   \<and> fst (serverless_then_handler b m w) = Inr m
   \<and> exit_code (classic_run b e [ConnectSettles (Inr m)] (classic_startup w)) = None
   \<and> clientPromise (classic_run b e [ConnectSettles (Inr m)] (classic_startup w))
       = Some (getClient m)
   \<and> attempts (serverless_run b e [Calls c, Settles 0 (Inr m)] (serverless_startup w))
       = [Some (Inr m)]
   \<and> (model_fault b = Some err
       \<or> model_fault b = None \<and> updateMany_fault b = Some err
       \<or> model_fault b = None \<and> updateMany_fault b = None \<and> syncIndexes_fault b = Some err
      \<longrightarrow> last (console (snd (classic_index_maintenance b w)))
            = ''Index maintenance skipped: '' @ shown_message err
          \<and> last (console (snd (serverless_index_maintenance b w)))
            = ''Index sync skipped: '' @ shown_message err)
   \<and> (model_fault b = None \<and> updateMany_fault b = None
       \<and> (dropIndex_fault b \<noteq> None \<or> ''supabaseUserId_1'' \<notin> set (user_indexes (db w)))
      \<longrightarrow> issued (snd (classic_index_maintenance b w))
            = issued w @ [UpdateMany, DropIndex, SyncIndexes]
          \<and> ''Old index not found or already updated.''
              \<in> set (console (snd (classic_index_maintenance b w)))
          \<and> issued (snd (serverless_index_maintenance b w))
            = issued w @ [UpdateMany, DropIndex, SyncIndexes]
          \<and> ''Index already clean'' \<in> set (console (snd (serverless_index_maintenance b w))))"
proof -
  have settle: "classic_run b e [ConnectSettles (Inr m)] (classic_startup w)
      = classic_on_settle b (Inr m) (classic_startup w)"
    by (simp add: classic_step_def classic_startup_def)
  have ok: "exit_code (classic_startup w) = None" by (simp add: classic_startup_def)
  show ?thesis
    using classic_maintenance_total [of b w] serverless_maintenance_total [of b w]
      classic_then_handler_total [of b m w] serverless_then_handler_total [of b m w]
      classic_on_settle_ok [OF ok, of b m] settle serverless_first_settle [of b e c m w]
      classic_outer_catch_logged [of b err w] serverless_outer_catch_logged [of b err w]
      classic_drop_failure_swallowed [of b w] serverless_drop_failure_swallowed [of b w]
    by (intro conjI impI) simp_all
qed

theorem index_maintenance_failures_are_swallowed_witness:
  "updateMany_fault failing_update = Some refused
   \<and> console (snd (classic_index_maintenance failing_update sample_world))
       = [''Index maintenance skipped: connect ECONNREFUSED'']
   \<and> fst (classic_index_maintenance failing_update sample_world) = Inr ()
   \<and> ''supabaseUserId_1'' \<notin> set (user_indexes (db sample_world))
   \<and> issued (snd (serverless_index_maintenance no_faults sample_world))
       = [UpdateMany, DropIndex, SyncIndexes]
   \<and> console (snd (serverless_index_maintenance no_faults sample_world))
       = [''Index already clean'', ''Indexes synced'']
   \<and> exit_code (classic_run failing_update Map.empty [ConnectSettles (Inr (Mongoose 7))]
        (classic_startup sample_world)) = None"
  using index_maintenance_failures_are_swallowed [of failing_update sample_world "Mongoose 7"
      Map.empty 1 refused]
    index_maintenance_failures_are_swallowed [of no_faults sample_world "Mongoose 7"
      Map.empty 1 refused]
  by (simp add: classic_index_maintenance_def serverless_index_maintenance_def io_defs
      sample_defs failing_update_def shown_message_def new_Error_def Let_def)

lemma map_of_unset:
  "map_of (unset_fields [f] d) k = (if k = f then None else map_of d k)"
  by (induction d) (auto simp: unset_fields_def)

lemma cleanup_users:
  "updateMany_fault b = None \<Longrightarrow>
   users (db (snd (cleanup_null_ids b w)))
     = map (\<lambda>d. if matches [(''supabaseUserId'', BNull)] d
                  then unset_fields [''supabaseUserId''] d else d) (users (db w))"
  by (simp add: cleanup_null_ids_def updateMany_def Let_def)

lemma classic_maintenance_users:
  "model_fault b = None \<Longrightarrow> updateMany_fault b = None \<Longrightarrow>
   users (db (snd (classic_index_maintenance b w))) = users (db (snd (cleanup_null_ids b w)))"
  by (simp add: classic_index_maintenance_def io_defs Let_def split: option.splits)

lemma serverless_maintenance_users:
  "model_fault b = None \<Longrightarrow> updateMany_fault b = None \<Longrightarrow>
   users (db (snd (serverless_index_maintenance b w))) = users (db (snd (cleanup_null_ids b w)))"
  by (simp add: serverless_index_maintenance_def io_defs Let_def split: option.splits)

text \<open>
  C4. When the first step runs and succeeds, every User document whose field
  \<^verbatim>\<open>supabaseUserId\<close> is \<^verbatim>\<open>null\<close> has that field absent afterwards, its other
  fields as they were, and every document whose field is present and not \<^verbatim>\<open>null\<close>
  is unchanged. This holds right after the step and at the end of the maintenance
  block of either variant.
\<close>

theorem null_identity_is_unset:
  assumes "model_fault b = None" and "updateMany_fault b = None"
    and "w' \<in> {snd (cleanup_null_ids b w), snd (classic_index_maintenance b w),
               snd (serverless_index_maintenance b w)}"
  shows "length (users (db w')) = length (users (db w))
     \<and> (\<forall>i < length (users (db w)).
          (map_of (users (db w) ! i) ''supabaseUserId'' = Some BNull \<longrightarrow>
             map_of (users (db w') ! i) ''supabaseUserId'' = None
             \<and> (\<forall>k. k \<noteq> ''supabaseUserId'' \<longrightarrow>
                   map_of (users (db w') ! i) k = map_of (users (db w) ! i) k))
          \<and> (\<forall>v. map_of (users (db w) ! i) ''supabaseUserId'' = Some v \<and> v \<noteq> BNull \<longrightarrow>
                users (db w') ! i = users (db w) ! i))"
proof -
  let ?f = "\<lambda>d. if matches [(''supabaseUserId'', BNull)] d
                 then unset_fields [''supabaseUserId''] d else d"
  from assms have us: "users (db w') = map ?f (users (db w))"
    by (auto simp: cleanup_users classic_maintenance_users serverless_maintenance_users)
  have null: "map_of (?f d) ''supabaseUserId'' = None
      \<and> (\<forall>k. k \<noteq> ''supabaseUserId'' \<longrightarrow> map_of (?f d) k = map_of d k)"
    if "map_of d ''supabaseUserId'' = Some BNull" for d
    using that by (simp add: matches_def map_of_unset)
  have kept: "?f d = d" if "map_of d ''supabaseUserId'' = Some v" "v \<noteq> BNull" for d v
    using that by (simp add: matches_def)
  from us null kept show ?thesis by simp
qed

theorem null_identity_is_unset_witness:
  "model_fault no_faults = None \<and> updateMany_fault no_faults = None
   \<and> users (db sample_world)
       = [[(''email'', BString ''a@x.io''), (''supabaseUserId'', BNull)],
          [(''email'', BString ''b@x.io''), (''supabaseUserId'', BString ''u-1'')],
          [(''email'', BString ''c@x.io'')]]
   \<and> users (db (snd (classic_index_maintenance no_faults sample_world)))
       = [[(''email'', BString ''a@x.io'')],
          [(''email'', BString ''b@x.io''), (''supabaseUserId'', BString ''u-1'')],
          [(''email'', BString ''c@x.io'')]]
   \<and> map_of (users (db (snd (classic_index_maintenance no_faults sample_world))) ! 0)
        ''supabaseUserId'' = None"
  using null_identity_is_unset [of no_faults
      "snd (classic_index_maintenance no_faults sample_world)" sample_world]
  by (simp add: classic_index_maintenance_def io_defs sample_defs matches_def unset_fields_def
      Let_def)

section \<open>Properties of the classic server's startup\<close>

text \<open>
  C8, as the claim states it, fails: the server listens without waiting for the
  connection, so in a run whose connection attempt fails the requests that arrive
  before the failure is delivered are handled. Here one is answered by the error
  handler and one is handed to the session and route layers before the process exits.
\<close>

theorem classic_serves_before_connect_failure:
  "exit_code (classic_run no_faults Map.empty
       [Incoming evil_request, Incoming plain_request, ConnectSettles (Inl refused)]
       (classic_startup sample_world)) = Some 1
   \<and> handled (classic_run no_faults Map.empty
       [Incoming evil_request, Incoming plain_request, ConnectSettles (Inl refused)]
       (classic_startup sample_world))
     = [Responded \<lparr> statusCode = 500,
          sent = [(500, \<lparr> success = False, message = ''Not allowed by CORS'' \<rparr>)] \<rparr>,
        PassedOn]"
  by (simp add: classic_defs gateway_defs sample_defs)

text \<open>
  C8, amended. When the initial connection attempt fails, the process exits with code 1
  at the moment the failure is delivered and handles no request after it; the requests
  that arrived before are exactly the ones handled. A rejected connection attempt is the
  only thing that makes the process exit: every run that ends exited contains a
  rejection of the attempt, preceded by requests only.
\<close>

theorem classic_exit_on_connect_failure:
  "(list_all is_incoming pre \<longrightarrow>
      exit_code (classic_run b e (pre @ ConnectSettles (Inl err) # post) (classic_startup w)) = Some 1
      \<and> handled (classic_run b e (pre @ ConnectSettles (Inl err) # post) (classic_startup w))
          = map (classic_gateway e) (requests_of pre))
   \<and> (exit_code (classic_run b e evs (classic_startup w)) \<noteq> None \<longrightarrow>
        (\<exists>pre err post. evs = pre @ ConnectSettles (Inl err) # post \<and> list_all is_incoming pre))"
proof (intro conjI impI)
  assume pre: "list_all is_incoming pre"
  let ?p0 = "classic_startup w"
  let ?p1 = "classic_run b e pre ?p0"
  let ?p2 = "classic_step b e (ConnectSettles (Inl err)) ?p1"
  have p1: "?p1 = ?p0\<lparr> handled := handled ?p0 @ map (classic_gateway e) (requests_of pre) \<rparr>"
    using pre by (rule classic_run_incoming) (simp_all add: classic_startup_def)
  then have "?p2 = classic_on_settle b (Inl err) ?p1"
    by (simp add: classic_step_def classic_startup_def)
  with classic_on_settle_fail [of b err ?p1]
  have p2: "exit_code ?p2 = Some 1" "handled ?p2 = handled ?p1" by simp_all
  have run: "classic_run b e (pre @ ConnectSettles (Inl err) # post) ?p0 = ?p2"
    using p2(1) by (simp add: classic_run_append classic_run_exited)
  show "exit_code (classic_run b e (pre @ ConnectSettles (Inl err) # post) ?p0) = Some 1"
    using run p2(1) by simp
  show "handled (classic_run b e (pre @ ConnectSettles (Inl err) # post) ?p0)
          = map (classic_gateway e) (requests_of pre)"
    using run p2(2) p1 by (simp add: classic_startup_def)
next
  assume "exit_code (classic_run b e evs (classic_startup w)) \<noteq> None"
  then show "\<exists>pre err post. evs = pre @ ConnectSettles (Inl err) # post \<and> list_all is_incoming pre"
    by (intro classic_exit_cause [of "classic_startup w" b e evs]) (simp_all add: classic_startup_def)
qed

theorem classic_exit_on_connect_failure_witness:
  "list_all is_incoming [Incoming plain_request]
   \<and> exit_code (classic_run no_faults Map.empty
        ([Incoming plain_request] @ ConnectSettles (Inl refused) # [Incoming plain_request])
        (classic_startup sample_world)) = Some 1
   \<and> handled (classic_run no_faults Map.empty
        ([Incoming plain_request] @ ConnectSettles (Inl refused) # [Incoming plain_request])
        (classic_startup sample_world)) = [PassedOn]"
  using classic_exit_on_connect_failure [of "[Incoming plain_request]" no_faults Map.empty
      refused "[Incoming plain_request]" sample_world
      "[Incoming plain_request] @ ConnectSettles (Inl refused) # [Incoming plain_request]"]
  by (simp add: gateway_defs plain_request_def)

section \<open>Properties of the serverless session middleware\<close>

text \<open>
  C9, as the claim states it, fails: not every incoming request builds a store. A
  request that \<^verbatim>\<open>cors\<close> rejects is answered by the error handler before the
  session middleware is reached, and a request whose \<^verbatim>\<open>await connectDB()\<close> is
  rejected leaves the middleware before \<^verbatim>\<open>MongoStore.create\<close>.
\<close>

theorem request_without_store:
  "stores_created (serverless_run no_faults Map.empty [Arrives 1 evil_request]
       (serverless_startup sample_world)) = []
   \<and> answered (serverless_run no_faults Map.empty [Arrives 1 evil_request]
       (serverless_startup sample_world))
     = [(1, Responded \<lparr> statusCode = 500,
              sent = [(500, \<lparr> success = False, message = ''Not allowed by CORS'' \<rparr>)] \<rparr>)]
   \<and> stores_created (serverless_run no_faults Map.empty
       [Arrives 2 plain_request, Settles 0 (Inl refused), Resumes 2]
       (serverless_startup sample_world)) = []
   \<and> returned (serverless_run no_faults Map.empty
       [Arrives 2 plain_request, Settles 0 (Inl refused), Resumes 2]
       (serverless_startup sample_world)) = [(2, Middleware, Inl refused)]"
  by (simp add: serverless_defs gateway_defs sample_defs Let_def)

text \<open>
  C9, amended. Nothing is built at startup. In every run, the stores and the session
  middlewares built are one per return of \<^verbatim>\<open>connectDB\<close> to the session middleware
  with a connection, each store created from the raw connection string
  \<^verbatim>\<open>process.env.MONGO_URI\<close>, while \<^verbatim>\<open>mongoose.connect\<close> is called at most
  once. In particular a request that reaches the session middleware when the
  connection is cached builds one more store and one more session middleware and opens
  no connection.
\<close>

theorem store_built_per_connected_request:
  "stores_created (serverless_startup w) = [] \<and> sessions_built (serverless_startup w) = []
   \<and> stores_created (serverless_run b e evs (serverless_startup w))
       = map (\<lambda>x. store (serverless_session_options e))
           (middleware_connected (serverless_run b e evs (serverless_startup w)))
   \<and> sessions_built (serverless_run b e evs (serverless_startup w))
       = map (\<lambda>x. serverless_session_options e)
           (middleware_connected (serverless_run b e evs (serverless_startup w)))
   \<and> source (store (serverless_session_options e)) = MongoUrl (e ''MONGO_URI'')
   \<and> connect_calls (serverless_run b e evs (serverless_startup w)) \<le> 1
   \<and> (front_middleware e rq = Continue \<and> conn (cached s) = Some m \<longrightarrow>
        stores_created (request_arrives e c rq s)
          = stores_created s @ [store (serverless_session_options e)]
        \<and> sessions_built (request_arrives e c rq s)
          = sessions_built s @ [serverless_session_options e]
        \<and> connect_calls (request_arrives e c rq s) = connect_calls s)"
proof -
  let ?s = "serverless_run b e evs (serverless_startup w)"
  have "store_inv e ?s" by (intro st_run st_startup)
  moreover have "cm_inv ?s" by (intro inv_run inv_startup)
  ultimately show ?thesis
    by (simp add: store_inv_def cm_inv_def serverless_startup_def serverless_session_options_def
        request_arrives_def connectDB_begin_def connectDB_returns_def)
qed

theorem store_built_per_connected_request_witness:
  "front_middleware [''MONGO_URI'' \<mapsto> ''mongodb://db/app''] plain_request = Continue
   \<and> conn (cached (serverless_run no_faults [''MONGO_URI'' \<mapsto> ''mongodb://db/app'']
        [Arrives 1 plain_request, Settles 0 (Inr (Mongoose 7)), Resumes 1]
        (serverless_startup sample_world))) = Some (Mongoose 7)
   \<and> map source (stores_created (request_arrives [''MONGO_URI'' \<mapsto> ''mongodb://db/app''] 2 plain_request
        (serverless_run no_faults [''MONGO_URI'' \<mapsto> ''mongodb://db/app'']
          [Arrives 1 plain_request, Settles 0 (Inr (Mongoose 7)), Resumes 1]
          (serverless_startup sample_world))))
       = [MongoUrl (Some ''mongodb://db/app''), MongoUrl (Some ''mongodb://db/app'')]
   \<and> connect_calls (request_arrives [''MONGO_URI'' \<mapsto> ''mongodb://db/app''] 2 plain_request
        (serverless_run no_faults [''MONGO_URI'' \<mapsto> ''mongodb://db/app'']
          [Arrives 1 plain_request, Settles 0 (Inr (Mongoose 7)), Resumes 1]
          (serverless_startup sample_world))) = 1"
  using store_built_per_connected_request [of sample_world no_faults
      "[''MONGO_URI'' \<mapsto> ''mongodb://db/app'']"
      "[Arrives 1 plain_request, Settles 0 (Inr (Mongoose 7)), Resumes 1]" plain_request
      "serverless_run no_faults [''MONGO_URI'' \<mapsto> ''mongodb://db/app'']
          [Arrives 1 plain_request, Settles 0 (Inr (Mongoose 7)), Resumes 1]
          (serverless_startup sample_world)" "Mongoose 7" 2]
  by (simp add: serverless_defs gateway_defs io_defs sample_defs serverless_session_options_def Let_def)

end
